theory Spec2Isabelle
  imports Main "HOL-Library.Sublist"
begin

section \<open>The tinycc package: locating, invoking and bundling tcc.exe\<close>

text \<open>
  The module \<^verbatim>\<open>tinycc/__init__.py\<close> has three functions: \<^verbatim>\<open>find_tcc_path\<close>,
  \<^verbatim>\<open>compile\<close> and \<^verbatim>\<open>data_files\<close>, and the module-level constant \<^verbatim>\<open>TCC\<close>.
  Paths are strings. An exception that leaves a function is the \<open>Inl\<close> side of the
  result. What the functions read from the operating system (environment, file
  system, interpreter) is a record \<open>world\<close>; the shell that \<^verbatim>\<open>os.system\<close> runs is a
  function from the command and the world to an exit status and the world afterwards.
\<close>

subsection \<open>Exceptions\<close>

text \<open>
  A message that the source builds with the \<^verbatim>\<open>%\<close> operator is kept as the format
  string and the list of its arguments (\<^verbatim>\<open>repr\<close> is not evaluated). \<open>TypeError\<close>,
  \<open>KeyError\<close> and \<open>ValueError\<close> are raised by the interpreter, not by a
  \<^verbatim>\<open>raise\<close> statement of the module. \<open>Unmodelled_directive\<close> is not a Python
  exception: the model of the \<^verbatim>\<open>%\<close> operator below returns it at a conversion
  it does not cover, and no statement is made about Python there.
\<close>

datatype pyexn =
    RuntimeError string "string list"
  | ImportError string
  | TypeError string
  | KeyError string
  | ValueError string
  | Unmodelled_directive

subsection \<open>String operations of Python\<close>

text \<open>\<^verbatim>\<open>s.rfind(c)\<close>: the highest index of \<open>c\<close> in \<open>s\<close>, or \<open>-1\<close>.\<close>

primrec rfind_from :: "char \<Rightarrow> string \<Rightarrow> nat \<Rightarrow> int \<Rightarrow> int" where
  "rfind_from c [] i found = found"
| "rfind_from c (x # xs) i found = rfind_from c xs (Suc i) (if x = c then int i else found)"

definition rfind :: "char \<Rightarrow> string \<Rightarrow> int" where
  "rfind c s = rfind_from c s 0 (- 1)"

text \<open>\<^verbatim>\<open>s.rstrip(c)\<close> for a single character \<open>c\<close>.\<close>

definition rstrip :: "char \<Rightarrow> string \<Rightarrow> string" where
  "rstrip c s = rev (dropWhile (\<lambda>x. x = c) (rev s))"

text \<open>\<^verbatim>\<open>s.split(c)\<close>: the pieces between the occurrences of \<open>c\<close>; never an empty list.\<close>

fun split_on :: "char \<Rightarrow> string \<Rightarrow> string list" where
  "split_on c [] = [[]]"
| "split_on c (x # xs) =
     (if x = c then [] # split_on c xs
      else (case split_on c xs of
              [] \<Rightarrow> [[x]]
            | piece # pieces \<Rightarrow> (x # piece) # pieces))"

subsection \<open>The \<^verbatim>\<open>%\<close> operator with a dictionary on the right\<close>

text \<open>
  \<^verbatim>\<open>fmt % d\<close> copies \<open>fmt\<close> up to each \<^verbatim>\<open>%\<close>. \<^verbatim>\<open>%%\<close> gives a percent sign.
  \<^verbatim>\<open>%(key)s\<close> gives \<open>d[key]\<close> (a string here), where the key runs to the matching
  closing parenthesis, nested parentheses counted; a key that is not closed is a
  \<open>ValueError\<close>, a key that \<open>d\<close> lacks a \<open>KeyError\<close>, a format that ends inside a
  directive a \<open>ValueError\<close>. Every other directive (flags, widths, conversions other
  than \<open>s\<close>, a directive with no key) is outside this model.
\<close>

fun take_key :: "nat \<Rightarrow> string \<Rightarrow> (string \<times> string) option" where
  "take_key pcount [] = None"
| "take_key pcount (c # cs) =
     (if c = CHR '')'' then
        (if pcount = 0 then Some ([], cs)
         else map_option (\<lambda>(key, rest). (c # key, rest)) (take_key (pcount - 1) cs))
      else if c = CHR ''('' then
        map_option (\<lambda>(key, rest). (c # key, rest)) (take_key (Suc pcount) cs)
      else map_option (\<lambda>(key, rest). (c # key, rest)) (take_key pcount cs))"

lemma take_key_shorter: "take_key n cs = Some (key, rest) \<Longrightarrow> length rest < length cs"
  by (induction cs arbitrary: n key) (fastforce split: if_splits)+

function py_format :: "string \<Rightarrow> (string \<rightharpoonup> string) \<Rightarrow> pyexn + string" where
  "py_format [] d = Inr []"
| "py_format (c # cs) d =
     (if c \<noteq> CHR ''%'' then map_sum id ((#) c) (py_format cs d)
      else (case cs of
              [] \<Rightarrow> Inl (ValueError ''incomplete format'')
            | c' # cs' \<Rightarrow>
                if c' = CHR ''%'' then map_sum id ((#) CHR ''%'') (py_format cs' d)
                else if c' = CHR ''('' then
                  (case take_key 0 cs' of
                     None \<Rightarrow> Inl (ValueError ''incomplete format key'')
                   | Some (key, rest) \<Rightarrow>
                       (case d key of
                          None \<Rightarrow> Inl (KeyError key)
                        | Some v \<Rightarrow>
                            (case rest of
                               [] \<Rightarrow> Inl (ValueError ''incomplete format'')
                             | conv # rest' \<Rightarrow>
                                 if conv = CHR ''s'' then map_sum id ((@) v) (py_format rest' d)
                                 else Inl Unmodelled_directive)))
                else Inl Unmodelled_directive))"
  by pat_completeness auto
termination
  by (relation "measure (\<lambda>(fmt, d). length fmt)") (auto dest: take_key_shorter)

subsection \<open>\<^verbatim>\<open>os.path\<close>: the functions on path strings\<close>

text \<open>
  The functions of \<^verbatim>\<open>os.path\<close> that only compute on the string follow
  \<^verbatim>\<open>posixpath\<close>: the separator is \<open>/\<close>, there is no alternative separator and no
  drive.
\<close>

text \<open>One step of \<^verbatim>\<open>join\<close>: an absolute component replaces what came before.\<close>

definition join2 :: "string \<Rightarrow> string \<Rightarrow> string" where
  "join2 path b =
     (if b \<noteq> [] \<and> hd b = CHR ''/'' then b
      else if path = [] \<or> last path = CHR ''/'' then path @ b
      else path @ ''/'' @ b)"

text \<open>\<^verbatim>\<open>join(a, *p)\<close>: the loop over the further components.\<close>

definition joinpath :: "string \<Rightarrow> string list \<Rightarrow> string" where
  "joinpath a p = foldl join2 a p"

definition dirname :: "string \<Rightarrow> string" where
  "dirname p =
     (let i = nat (rfind CHR ''/'' p + 1);
          head = take i p
      in if head \<noteq> [] \<and> head \<noteq> replicate (length head) CHR ''/''
         then rstrip CHR ''/'' head
         else head)"

text \<open>
  The loop of \<^verbatim>\<open>splitext\<close> that skips the leading dots of the file name: it
  answers whether a character other than the dot stands before the last dot.
\<close>

function skip_dots :: "string \<Rightarrow> nat \<Rightarrow> nat \<Rightarrow> bool" where
  "skip_dots p filenameIndex dotIndex =
     (if filenameIndex < dotIndex then
        (if take 1 (drop filenameIndex p) \<noteq> ''.'' then True
         else skip_dots p (filenameIndex + 1) dotIndex)
      else False)"
  by pat_completeness auto
termination
  by (relation "measure (\<lambda>(p, filenameIndex, dotIndex). dotIndex - filenameIndex)") auto

declare skip_dots.simps [simp del]

definition splitext :: "string \<Rightarrow> string \<times> string" where
  "splitext p =
     (let sepIndex = rfind CHR ''/'' p;
          dotIndex = rfind CHR ''.'' p
      in if dotIndex > sepIndex \<and> skip_dots p (nat (sepIndex + 1)) (nat dotIndex)
         then (take (nat dotIndex) p, drop (nat dotIndex) p)
         else (p, []))"

text \<open>
  A call of \<^verbatim>\<open>dirname\<close> with its positional arguments: the function takes one.
  (The message is the one of Python 3; Python 2 words it differently.)
\<close>

fun dirname_call :: "string list \<Rightarrow> pyexn + string" where
  "dirname_call [p] = Inr (dirname p)"
| "dirname_call args =
     Inl (TypeError ''dirname() takes 1 positional argument but 3 were given'')"

subsection \<open>The world outside the module\<close>

record world =
  environ :: "string \<rightharpoonup> string"
  exists :: "string \<Rightarrow> bool"
  realpath :: "string \<Rightarrow> string"
  glob :: "string \<Rightarrow> string list"
  walk :: "string \<Rightarrow> (string \<times> string list \<times> string list) list"
  module_file :: string
  sys_executable :: string

type_synonym shell = "string \<Rightarrow> world \<Rightarrow> int \<times> world"

subsection \<open>\<^verbatim>\<open>find_tcc_path\<close>\<close>

definition EXE :: string where
  "EXE = ''tcc.exe''"

definition KEY :: string where
  "KEY = ''TCC_ROOT''"

definition find_tcc_path :: "world \<Rightarrow> pyexn + string" where
  "find_tcc_path w =
     (case environ w KEY of
        Some root \<Rightarrow>
          (let path = joinpath root [EXE]
           in if \<not> exists w path
              then Inl (RuntimeError ''%s %r does not contain %s'' [KEY, root, EXE])
              else Inr path)
      | None \<Rightarrow>
          (let path = joinpath (dirname (realpath w (module_file w))) [EXE]
           in if exists w path then Inr path
              else (case dirname_call [sys_executable w, ''tinycc-data'', EXE] of
                      Inl e \<Rightarrow> Inl e
                    | Inr d \<Rightarrow>
                        (let path = joinpath (realpath w d) []
                         in if exists w path then Inr path
                            else Inl (ImportError ''Could not locate tcc.exe'')))))"

subsection \<open>The module-level constant \<^verbatim>\<open>TCC\<close>\<close>

text \<open>
  \<^verbatim>\<open>TCC = '"%s"' % find_tcc_path()\<close> runs when the module is imported: the path
  between double quotes, or the exception of \<^verbatim>\<open>find_tcc_path\<close>, in which case
  the import fails and no function of the module can be called.
\<close>

definition TCC :: "world \<Rightarrow> pyexn + string" where
  \<open>TCC w = map_sum id (\<lambda>path. ''"'' @ path @ ''"'') (find_tcc_path w)\<close>

subsection \<open>\<^verbatim>\<open>compile\<close>\<close>

text \<open>
  \<open>tcc\<close> is the value of the global \<^verbatim>\<open>TCC\<close>, \<open>os_system\<close> the shell. The result
  is the returned path or the exception, together with the world that the command
  left behind.
\<close>

definition COMPILE :: "string \<Rightarrow> string" where
  "COMPILE tcc = tcc @ '' -shared -rdynamic -Wall %(source)s -o $(target)s''"

definition compile :: "shell \<Rightarrow> string \<Rightarrow> world \<Rightarrow> string \<Rightarrow> string option
    \<Rightarrow> (pyexn + string) \<times> world" where
  "compile os_system tcc w source target0 =
     (let target = (case target0 of
                      None \<Rightarrow> fst (splitext source) @ ''.dll''
                    | Some t \<Rightarrow> t)
      in case py_format (COMPILE tcc) [''source'' \<mapsto> source, ''target'' \<mapsto> target] of
           Inl e \<Rightarrow> (Inl e, w)
         | Inr command \<Rightarrow>
             (case os_system command w of
                (status, w') \<Rightarrow>
                  if status \<noteq> 0 \<or> \<not> exists w' target
                  then (Inl (RuntimeError ''compile failed.  File is in %r'' [source]), w')
                  else (Inr target, w')))"

subsection \<open>\<^verbatim>\<open>data_files\<close>\<close>

text \<open>The inner function \<^verbatim>\<open>_find_files\<close>, with \<^verbatim>\<open>ROOT\<close> of the enclosing scope.\<close>

definition find_files :: "world \<Rightarrow> string \<Rightarrow> string \<Rightarrow> string \<Rightarrow> string \<times> string list" where
  "find_files w ROOT path patterns =
     (let target = (if path \<noteq> [] then joinpath ''tinycc-data'' [path] else ''tinycc-data'');
          files = concat (map (\<lambda>pattern. glob w (joinpath ROOT [path, pattern]))
                              (split_on CHR '','' patterns))
      in (target, files))"

text \<open>The loop over \<^verbatim>\<open>os.walk\<close>: one entry for each subdirectory of each directory.\<close>

definition walk_entries :: "world \<Rightarrow> string \<Rightarrow> (string \<times> string list) list" where
  "walk_entries w ROOT =
     concat (map (\<lambda>(path, dirs, files).
                    (let relative_path = drop (length ROOT + 1) path
                     in map (\<lambda>d. find_files w ROOT (joinpath relative_path [d]) ''*.h'') dirs))
                 (walk w (joinpath ROOT [''include''])))"

definition data_files :: "world \<Rightarrow> pyexn + (string \<times> string list) list" where
  "data_files w =
     (case find_tcc_path w of
        Inl e \<Rightarrow> Inl e
      | Inr tcc_path \<Rightarrow>
          (let ROOT = dirname tcc_path
           in Inr ([find_files w ROOT ''include'' ''*.h'']
                   @ walk_entries w ROOT
                   @ [find_files w ROOT ''lib'' ''*'']
                   @ [find_files w ROOT ''libtcc'' ''*'']
                   @ [find_files w ROOT [] ''*.exe,*.dll''])))"

text \<open>
  The arguments of the calls of \<^verbatim>\<open>_find_files\<close> that \<^verbatim>\<open>data_files\<close> makes, in
  the order of the calls: the directory (relative to \<^verbatim>\<open>ROOT\<close>) and the patterns.
\<close>

definition find_files_calls :: "world \<Rightarrow> string \<Rightarrow> (string \<times> string) list" where
  "find_files_calls w ROOT =
     [(''include'', ''*.h'')]
     @ concat (map (\<lambda>(path, dirs, files).
                      map (\<lambda>d. (joinpath (drop (length ROOT + 1) path) [d], ''*.h'')) dirs)
                   (walk w (joinpath ROOT [''include''])))
     @ [(''lib'', ''*''), (''libtcc'', ''*''), ([], ''*.exe,*.dll'')]"

text \<open>
  What the documentation of \<^verbatim>\<open>os.walk\<close> promises of each triple: the directory
  path begins with the top that was asked for, and the subdirectories are given by
  name (not empty, no separator in it).
\<close>

definition walk_contract :: "world \<Rightarrow> bool" where
  "walk_contract w \<longleftrightarrow>
     (\<forall>top path dirs files. (path, dirs, files) \<in> set (walk w top) \<longrightarrow>
        prefix top path \<and> (\<forall>d \<in> set dirs. d \<noteq> [] \<and> CHR ''/'' \<notin> set d))"

subsection \<open>The search order in the words of the specification\<close>

text \<open>
  The specification lists three candidate directories, checked in order, the first
  that contains the executable giving the result: the override directory, the
  directory of the package, and \<^verbatim>\<open>tinycc-data\<close> beside the running program.
\<close>

definition spec_candidates :: "world \<Rightarrow> string list" where
  "spec_candidates w =
     (case environ w KEY of None \<Rightarrow> [] | Some root \<Rightarrow> [root])
     @ [dirname (realpath w (module_file w)),
        joinpath (realpath w (dirname (sys_executable w))) [''tinycc-data'']]"

definition spec_find_tcc_path :: "world \<Rightarrow> string option" where
  "spec_find_tcc_path w =
     (case filter (\<lambda>dir. exists w (joinpath dir [EXE])) (spec_candidates w) of
        [] \<Rightarrow> None
      | dir # _ \<Rightarrow> Some (joinpath dir [EXE]))"

subsection \<open>Example worlds and shells\<close>

text \<open>
  A machine on which the package is installed under \<^verbatim>\<open>/site-packages/tinycc\<close> and
  the interpreter is \<^verbatim>\<open>/usr/bin/python\<close>; no symbolic links, so \<^verbatim>\<open>realpath\<close>
  changes nothing. The arguments are the environment, the paths that exist, and the
  answers of \<^verbatim>\<open>glob\<close> and \<^verbatim>\<open>os.walk\<close> as tables (anything not in a table gives the
  empty list).
\<close>

definition machine :: "(string \<rightharpoonup> string) \<Rightarrow> string list
    \<Rightarrow> (string \<times> string list) list
    \<Rightarrow> (string \<times> (string \<times> string list \<times> string list) list) list \<Rightarrow> world" where
  "machine env paths globs walks =
     \<lparr>environ = env,
      exists = (\<lambda>p. p \<in> set paths),
      realpath = (\<lambda>p. p),
      glob = (\<lambda>pattern. case map_of globs pattern of None \<Rightarrow> [] | Some found \<Rightarrow> found),
      walk = (\<lambda>top. case map_of walks top of None \<Rightarrow> [] | Some triples \<Rightarrow> triples),
      module_file = ''/site-packages/tinycc/__init__.py'',
      sys_executable = ''/usr/bin/python''\<rparr>"

text \<open>Only \<^verbatim>\<open>tcc.exe\<close> in the package directory: no include, lib or libtcc directory.\<close>

definition bare_install :: world where
  "bare_install =
     machine Map.empty
       [''/site-packages/tinycc'', ''/site-packages/tinycc/__init__.py'',
        ''/site-packages/tinycc/tcc.exe'']
       [(''/site-packages/tinycc/*.exe'', [''/site-packages/tinycc/tcc.exe''])]
       []"

text \<open>The package directory with headers (one subdirectory) and a library.\<close>

definition full_install :: world where
  "full_install =
     machine Map.empty
       [''/site-packages/tinycc'', ''/site-packages/tinycc/__init__.py'',
        ''/site-packages/tinycc/tcc.exe'',
        ''/site-packages/tinycc/include'', ''/site-packages/tinycc/include/stdio.h'',
        ''/site-packages/tinycc/include/sys'', ''/site-packages/tinycc/include/sys/stat.h'',
        ''/site-packages/tinycc/lib'', ''/site-packages/tinycc/lib/libtcc1.a'']
       [(''/site-packages/tinycc/*.exe'', [''/site-packages/tinycc/tcc.exe'']),
        (''/site-packages/tinycc/include/*.h'', [''/site-packages/tinycc/include/stdio.h'']),
        (''/site-packages/tinycc/include/sys/*.h'',
           [''/site-packages/tinycc/include/sys/stat.h'']),
        (''/site-packages/tinycc/lib/*'', [''/site-packages/tinycc/lib/libtcc1.a''])]
       [(''/site-packages/tinycc/include'',
           [(''/site-packages/tinycc/include'', [''sys''], [''stdio.h'']),
            (''/site-packages/tinycc/include/sys'', [], [''stat.h''])])]"

text \<open>
  \<^verbatim>\<open>TCC_ROOT=/opt/tcc\<close>, where \<^verbatim>\<open>/opt/tcc\<close> exists and is empty, while the package
  directory has the executable.
\<close>

definition override_empty :: world where
  "override_empty =
     machine [''TCC_ROOT'' \<mapsto> ''/opt/tcc'']
       [''/opt/tcc'', ''/site-packages/tinycc'', ''/site-packages/tinycc/__init__.py'',
        ''/site-packages/tinycc/tcc.exe'']
       [] []"

text \<open>\<^verbatim>\<open>TCC_ROOT=/opt/tcc\<close> with the executable there, and in the package directory too.\<close>

definition override_both :: world where
  "override_both =
     machine [''TCC_ROOT'' \<mapsto> ''/opt/tcc'']
       [''/opt/tcc'', ''/opt/tcc/tcc.exe'', ''/site-packages/tinycc'',
        ''/site-packages/tinycc/__init__.py'', ''/site-packages/tinycc/tcc.exe'']
       [] []"

text \<open>No override and no \<^verbatim>\<open>tcc.exe\<close> anywhere.\<close>

definition no_tcc :: world where
  "no_tcc =
     machine Map.empty
       [''/site-packages/tinycc'', ''/site-packages/tinycc/__init__.py'',
        ''/usr/bin/python'']
       [] []"

text \<open>
  A directory with \<^verbatim>\<open>hello.c\<close> and an older \<^verbatim>\<open>hello.dll\<close> and \<^verbatim>\<open>out.so\<close>, and two
  shells: one in which every command fails with status 1 and changes nothing, one in
  which every command ends with status 0 and leaves a file of the given name.
\<close>

definition workdir :: world where
  "workdir =
     machine Map.empty
       [''/site-packages/tinycc/tcc.exe'', ''hello.c'', ''hello.dll'', ''out.so'']
       [] []"

definition failing_shell :: shell where
  "failing_shell command w = (1, w)"

definition writing_shell :: "string \<Rightarrow> shell" where
  "writing_shell out command w = (0, w\<lparr>exists := (\<lambda>p. p = out \<or> exists w p)\<rparr>)"

section \<open>Properties\<close>

subsection \<open>Lemmas on the string functions\<close>

lemma rfind_from_absent: "c \<notin> set xs \<Longrightarrow> rfind_from c xs i found = found"
  by (induction xs arbitrary: i found) auto

lemma rfind_from_present:
  "c \<in> set xs \<Longrightarrow>
     \<exists>k<length xs. rfind_from c xs i found = int (i + k) \<and> xs ! k = c \<and> c \<notin> set (drop (Suc k) xs)"
proof (induction xs arbitrary: i found)
  case Nil
  then show ?case by simp
next
  case (Cons x xs)
  show ?case
  proof (cases "c \<in> set xs")
    case True
    from Cons.IH [OF True, of "Suc i" "if x = c then int i else found"]
    obtain k where "k < length xs"
      "rfind_from c xs (Suc i) (if x = c then int i else found) = int (Suc i + k)"
      "xs ! k = c" "c \<notin> set (drop (Suc k) xs)"
      by blast
    then have "Suc k < length (x # xs) \<and> rfind_from c (x # xs) i found = int (i + Suc k)
        \<and> (x # xs) ! Suc k = c \<and> c \<notin> set (drop (Suc (Suc k)) (x # xs))"
      by simp
    then show ?thesis by blast
  next
    case False
    with Cons.prems have "x = c" by simp
    with False have "0 < length (x # xs) \<and> rfind_from c (x # xs) i found = int (i + 0)
        \<and> (x # xs) ! 0 = c \<and> c \<notin> set (drop (Suc 0) (x # xs))"
      by (simp add: rfind_from_absent)
    then show ?thesis by blast
  qed
qed

lemma rfind_absent: "c \<notin> set s \<Longrightarrow> rfind c s = - 1"
  by (simp add: rfind_def rfind_from_absent)

lemma rfind_present:
  "c \<in> set s \<Longrightarrow> \<exists>k<length s. rfind c s = int k \<and> s ! k = c \<and> c \<notin> set (drop (Suc k) s)"
  using rfind_from_present [of c s 0 "- 1"] by (simp add: rfind_def)

lemma rfind_lower: "- 1 \<le> rfind c s"
proof (cases "c \<in> set s")
  case True
  then obtain k where "rfind c s = int k" using rfind_present by blast
  then show ?thesis by simp
next
  case False
  then show ?thesis by (simp add: rfind_absent)
qed


lemma splitext_concat: "splitext p = (root, ext) \<Longrightarrow> p = root @ ext"
  by (auto simp: splitext_def Let_def split: if_splits)

lemma splitext_ext:
  assumes "splitext p = (root, ext)"
  shows "ext = [] \<or> (hd ext = CHR ''.'' \<and> CHR ''.'' \<notin> set (tl ext) \<and> CHR ''/'' \<notin> set ext)"
proof (cases "rfind CHR ''/'' p < rfind CHR ''.'' p
    \<and> skip_dots p (nat (rfind CHR ''/'' p + 1)) (nat (rfind CHR ''.'' p))")
  case False
  with assms show ?thesis by (auto simp: splitext_def Let_def)
next
  case True
  then have gt: "rfind CHR ''/'' p < rfind CHR ''.'' p" by simp
  from True assms have ext: "ext = drop (nat (rfind CHR ''.'' p)) p"
    by (auto simp: splitext_def Let_def)
  have "CHR ''.'' \<in> set p"
  proof (rule ccontr)
    assume "CHR ''.'' \<notin> set p"
    then have "rfind CHR ''.'' p = - 1" by (rule rfind_absent)
    with gt rfind_lower [of "CHR ''/''" p] show False by simp
  qed
  then obtain k where k: "k < length p" "rfind CHR ''.'' p = int k" "p ! k = CHR ''.''"
    "CHR ''.'' \<notin> set (drop (Suc k) p)"
    using rfind_present by blast
  have "drop k p = p ! k # drop (Suc k) p"
    using k(1) by (simp add: Cons_nth_drop_Suc)
  with ext k have ext': "ext = CHR ''.'' # drop (Suc k) p"
    by simp
  have no_sep: "CHR ''/'' \<notin> set (drop k p)"
  proof (cases "CHR ''/'' \<in> set p")
    case False
    then show ?thesis by (meson in_set_dropD)
  next
    case True
    then obtain j where j: "j < length p" "rfind CHR ''/'' p = int j"
      "CHR ''/'' \<notin> set (drop (Suc j) p)"
      using rfind_present by blast
    with gt k have "Suc j \<le> k" by simp
    then have "set (drop k p) \<subseteq> set (drop (Suc j) p)"
      by (rule set_drop_subset_set_drop)
    with j show ?thesis by blast
  qed
  have "ext = drop k p" using ext k by simp
  with no_sep ext' k show ?thesis by simp
qed


lemma rfind_from_last:
  "c \<notin> set ys \<Longrightarrow> rfind_from c (xs @ c # ys) i found = int (i + length xs)"
  by (induction xs arbitrary: i found) (simp_all add: rfind_from_absent)

lemma rfind_last: "c \<notin> set ys \<Longrightarrow> rfind c (xs @ c # ys) = int (length xs)"
  using rfind_from_last [of c ys xs 0 "- 1"] by (simp add: rfind_def)

lemma rfind_sep:
  assumes "CHR ''/'' \<notin> set name" and "dir = [] \<or> last dir = CHR ''/''"
  shows "rfind CHR ''/'' (dir @ name) + 1 = int (length dir)"
proof (cases "dir = []")
  case True
  with assms(1) show ?thesis by (simp add: rfind_absent)
next
  case False
  with assms(2) obtain front where front: "dir = front @ [CHR ''/'']"
    by (metis append_butlast_last_id)
  have "rfind CHR ''/'' (front @ CHR ''/'' # name) = int (length front)"
    using assms(1) by (rule rfind_last)
  then show ?thesis
    by (simp add: front)
qed

lemma skip_dots_segment:
  "skip_dots (xs @ ys @ zs) (length xs) (length xs + length ys) \<longleftrightarrow> (\<exists>c \<in> set ys. c \<noteq> CHR ''.'')"
proof (induction ys arbitrary: xs)
  case Nil
  show ?case by (simp add: skip_dots.simps)
next
  case (Cons y ys)
  have "skip_dots ((xs @ [y]) @ ys @ zs) (length (xs @ [y])) (length (xs @ [y]) + length ys)
      \<longleftrightarrow> (\<exists>c \<in> set ys. c \<noteq> CHR ''.'')"
    by (rule Cons.IH)
  then have rest: "skip_dots (xs @ (y # ys) @ zs) (length xs + 1) (length xs + length (y # ys))
      \<longleftrightarrow> (\<exists>c \<in> set ys. c \<noteq> CHR ''.'')"
    by simp
  have "skip_dots (xs @ (y # ys) @ zs) (length xs) (length xs + length (y # ys))
      \<longleftrightarrow> (y \<noteq> CHR ''.'' \<or> skip_dots (xs @ (y # ys) @ zs) (length xs + 1) (length xs + length (y # ys)))"
    by (subst skip_dots.simps) simp
  with rest show ?case by auto
qed

lemma splitext_extension:
  assumes "CHR ''/'' \<notin> set name" and "dir = [] \<or> last dir = CHR ''/''"
    and "name = stem @ CHR ''.'' # e" and "CHR ''.'' \<notin> set e"
    and "\<exists>c \<in> set stem. c \<noteq> CHR ''.''"
  shows "splitext (dir @ name) = (dir @ stem, CHR ''.'' # e)"
proof -
  let ?p = "dir @ name"
  have p: "?p = (dir @ stem) @ CHR ''.'' # e"
    using assms(3) by simp
  have dot: "rfind CHR ''.'' ?p = int (length dir + length stem)"
    unfolding p using rfind_last [OF assms(4), of "dir @ stem"] by simp
  have sep: "rfind CHR ''/'' ?p + 1 = int (length dir)"
    using assms(1,2) by (rule rfind_sep)
  have "skip_dots (dir @ stem @ CHR ''.'' # e) (length dir) (length dir + length stem)"
    using assms(5) by (simp only: skip_dots_segment)
  moreover have "nat (rfind CHR ''/'' ?p + 1) = length dir"
    and "nat (rfind CHR ''.'' ?p) = length dir + length stem"
    by (simp_all add: dot sep del: append_assoc)
  moreover have "dir @ stem @ CHR ''.'' # e = ?p"
    by (simp add: assms(3))
  ultimately have skip: "skip_dots ?p (nat (rfind CHR ''/'' ?p + 1)) (nat (rfind CHR ''.'' ?p))"
    by (simp only:)
  have gt: "rfind CHR ''/'' ?p < rfind CHR ''.'' ?p"
    using dot sep by simp
  have ndot: "nat (rfind CHR ''.'' ?p) = length dir + length stem"
    by (simp add: dot del: append_assoc)
  have "splitext ?p = (take (nat (rfind CHR ''.'' ?p)) ?p, drop (nat (rfind CHR ''.'' ?p)) ?p)"
    using skip gt by (simp add: splitext_def Let_def)
  then show ?thesis
    unfolding ndot using assms(3) by simp
qed

lemma splitext_no_extension:
  assumes "CHR ''/'' \<notin> set name" and "dir = [] \<or> last dir = CHR ''/''"
    and "name = dots @ body" and "set dots \<subseteq> {CHR ''.''}" and "CHR ''.'' \<notin> set body"
  shows "splitext (dir @ name) = (dir @ name, [])"
proof -
  let ?p = "dir @ name"
  have sep: "rfind CHR ''/'' ?p + 1 = int (length dir)"
    using assms(1,2) by (rule rfind_sep)
  have "\<not> (rfind CHR ''/'' ?p < rfind CHR ''.'' ?p
      \<and> skip_dots ?p (nat (rfind CHR ''/'' ?p + 1)) (nat (rfind CHR ''.'' ?p)))"
  proof (cases "dots = []")
    case True
    with assms(3,5) have no_dot: "CHR ''.'' \<notin> set name" by simp
    have "rfind CHR ''.'' ?p < int (length dir)"
    proof (cases "CHR ''.'' \<in> set ?p")
      case False
      then show ?thesis by (simp add: rfind_absent)
    next
      case True
      then obtain k where k: "k < length ?p" "rfind CHR ''.'' ?p = int k" "?p ! k = CHR ''.''"
        using rfind_present by blast
      have "k < length dir"
      proof (rule ccontr)
        assume "\<not> k < length dir"
        with k(1,3) have "name ! (k - length dir) = CHR ''.''" and "k - length dir < length name"
          by (simp_all add: nth_append)
        with no_dot show False by (metis nth_mem)
      qed
      with k(2) show ?thesis by simp
    qed
    with sep show ?thesis by simp
  next
    case False
    then have dots: "dots = butlast dots @ [CHR ''.'']"
      using assms(4) by (metis append_butlast_last_id last_in_set singletonD subsetD)
    then have "?p = (dir @ butlast dots) @ CHR ''.'' # body"
      using assms(3) by (metis append_Cons append_Nil append_assoc)
    with rfind_last [OF assms(5), of "dir @ butlast dots"]
    have dot: "rfind CHR ''.'' ?p = int (length dir + length (butlast dots))"
      by simp
    have "set (butlast dots) \<subseteq> {CHR ''.''}"
      using assms(4) by (meson in_set_butlastD subset_iff)
    then have "\<not> (\<exists>c \<in> set (butlast dots). c \<noteq> CHR ''.'')"
      by auto
    then have "\<not> skip_dots (dir @ butlast dots @ CHR ''.'' # body) (length dir)
        (length dir + length (butlast dots))"
      unfolding skip_dots_segment .
    moreover have "dir @ butlast dots @ CHR ''.'' # body = ?p"
      using assms(3) dots by (metis append_Cons append_Nil append_assoc)
    moreover have "nat (rfind CHR ''/'' ?p + 1) = length dir"
      and "nat (rfind CHR ''.'' ?p) = length dir + length (butlast dots)"
      by (simp_all add: dot sep del: append_assoc)
    ultimately show ?thesis
      by (simp only:) simp
  qed
  then show ?thesis
    by (auto simp: splitext_def Let_def)
qed

text \<open>
  Every file name is of one of the two forms that \<open>splitext_extension\<close> and
  \<open>splitext_no_extension\<close> treat.
\<close>

lemma last_split:
  assumes "x \<in> set xs" and "hd xs \<noteq> x"
  shows "\<exists>pre e. xs = pre @ x # e \<and> x \<notin> set e \<and> pre \<noteq> [] \<and> hd pre \<noteq> x"
proof -
  from split_list_last [OF assms(1)]
  obtain pre e where xs: "xs = pre @ x # e" and e: "x \<notin> set e"
    by blast
  from xs assms(2) have "pre \<noteq> []"
    by (cases pre) auto
  moreover from this xs assms(2) have "hd pre \<noteq> x"
    by (cases pre) auto
  ultimately show ?thesis
    using xs e by blast
qed

lemma leading_split:
  "\<exists>lead body. xs = lead @ body \<and> set lead \<subseteq> {x} \<and> (body = [] \<or> hd body \<noteq> x)"
proof (induction xs)
  case Nil
  show ?case by simp
next
  case (Cons a xs)
  show ?case
  proof (cases "a = x")
    case False
    then have "a # xs = [] @ a # xs \<and> set [] \<subseteq> {x} \<and> (a # xs = [] \<or> hd (a # xs) \<noteq> x)"
      by simp
    then show ?thesis by blast
  next
    case True
    from Cons.IH obtain lead body where "xs = lead @ body" "set lead \<subseteq> {x}"
      "body = [] \<or> hd body \<noteq> x"
      by blast
    with True have "a # xs = (x # lead) @ body \<and> set (x # lead) \<subseteq> {x}
        \<and> (body = [] \<or> hd body \<noteq> x)"
      by simp
    then show ?thesis by blast
  qed
qed

lemma name_forms:
  "(\<exists>stem e. name = stem @ CHR ''.'' # e \<and> CHR ''.'' \<notin> set e \<and> (\<exists>c \<in> set stem. c \<noteq> CHR ''.''))
   \<or> (\<exists>dots body. name = dots @ body \<and> set dots \<subseteq> {CHR ''.''} \<and> CHR ''.'' \<notin> set body)"
proof -
  from leading_split [of name "CHR ''.''"]
  obtain dots body where name: "name = dots @ body" and dots: "set dots \<subseteq> {CHR ''.''}"
    and body: "body = [] \<or> hd body \<noteq> CHR ''.''"
    by blast
  show ?thesis
  proof (cases "CHR ''.'' \<in> set body")
    case False
    with name dots show ?thesis by blast
  next
    case True
    with body have "hd body \<noteq> CHR ''.''"
      by auto
    from last_split [OF True this]
    obtain pre e where split: "body = pre @ CHR ''.'' # e" "CHR ''.'' \<notin> set e"
      "pre \<noteq> []" "hd pre \<noteq> CHR ''.''"
      by blast
    from split(3) have "hd pre \<in> set (dots @ pre)"
      by simp
    with split(4) have "\<exists>c \<in> set (dots @ pre). c \<noteq> CHR ''.''"
      by (intro bexI [of _ "hd pre"])
    moreover have "name = (dots @ pre) @ CHR ''.'' # e"
      using name split(1) by simp
    ultimately show ?thesis
      using split(2) by blast
  qed
qed

lemma py_format_literal:
  "CHR ''%'' \<notin> set xs \<Longrightarrow> py_format (xs @ ys) d = map_sum id ((@) xs) (py_format ys d)"
proof (induction xs)
  case Nil
  show ?case by (cases "py_format ys d") simp_all
next
  case (Cons a xs)
  then have "a \<noteq> CHR ''%''" by auto
  with Cons show ?case by (cases "py_format ys d") simp_all
qed

lemma take_key_target: "take_key 0 ''source)s -o $(target)s'' = Some (''source'', ''s -o $(target)s'')"
  by simp

lemma py_format_tail:
  "py_format '' -shared -rdynamic -Wall %(source)s -o $(target)s''
       [''source'' \<mapsto> source, ''target'' \<mapsto> target]
     = Inr ('' -shared -rdynamic -Wall '' @ source @ '' -o $(target)s'')"
  by simp

lemma py_format_COMPILE:
  "CHR ''%'' \<notin> set tcc \<Longrightarrow>
   py_format (COMPILE tcc) [''source'' \<mapsto> source, ''target'' \<mapsto> target]
     = Inr (tcc @ '' -shared -rdynamic -Wall '' @ source @ '' -o $(target)s'')"
  unfolding COMPILE_def by (simp add: py_format_literal py_format_tail del: py_format.simps)

subsection \<open>Evaluating the example worlds\<close>

lemmas machine_simps = machine_def KEY_def EXE_def joinpath_def join2_def dirname_def
  rfind_def rstrip_def

subsection \<open>\<^verbatim>\<open>find_tcc_path\<close>\<close>

text \<open>
  C5: if \<^verbatim>\<open>TCC_ROOT\<close> is set and the directory it names does not contain
  \<^verbatim>\<open>tcc.exe\<close>, \<^verbatim>\<open>find_tcc_path\<close> raises the \<open>RuntimeError\<close> that names the
  variable and its value, whatever the other locations hold: there is no fallback.
\<close>

theorem find_tcc_path_override_missing:
  assumes "environ w KEY = Some root"
    and "\<not> exists w (joinpath root [EXE])"
  shows "find_tcc_path w = Inl (RuntimeError ''%s %r does not contain %s'' [KEY, root, EXE])"
  using assms by (simp add: find_tcc_path_def)

text \<open>
  At \<open>override_empty\<close> the package directory has the executable, and the error is
  raised all the same.
\<close>

theorem find_tcc_path_override_missing_witness:
  "environ override_empty KEY = Some ''/opt/tcc''
   \<and> \<not> exists override_empty (joinpath ''/opt/tcc'' [EXE])
   \<and> exists override_empty (joinpath (dirname (realpath override_empty (module_file override_empty))) [EXE])
   \<and> find_tcc_path override_empty
       = Inl (RuntimeError ''%s %r does not contain %s'' [''TCC_ROOT'', ''/opt/tcc'', ''tcc.exe''])"
proof -
  have env: "environ override_empty KEY = Some ''/opt/tcc''"
    by (simp add: override_empty_def machine_simps)
  have missing: "\<not> exists override_empty (joinpath ''/opt/tcc'' [EXE])"
    by (simp add: override_empty_def machine_simps)
  have pkg: "exists override_empty
      (joinpath (dirname (realpath override_empty (module_file override_empty))) [EXE])"
    by (simp add: override_empty_def machine_simps)
  from find_tcc_path_override_missing [OF env missing] env missing pkg
  show ?thesis by (simp add: KEY_def EXE_def)
qed

text \<open>
  C6: if \<^verbatim>\<open>TCC_ROOT\<close> is set and the directory it names contains \<^verbatim>\<open>tcc.exe\<close>,
  \<^verbatim>\<open>find_tcc_path\<close> returns that directory joined with \<^verbatim>\<open>tcc.exe\<close>, whatever
  the package directory and the directory beside the program hold.
\<close>

theorem find_tcc_path_override_found:
  assumes "environ w KEY = Some root"
    and "exists w (joinpath root [EXE])"
  shows "find_tcc_path w = Inr (joinpath root [EXE])"
  using assms by (simp add: find_tcc_path_def)

theorem find_tcc_path_override_found_witness:
  "environ override_both KEY = Some ''/opt/tcc''
   \<and> exists override_both (joinpath ''/opt/tcc'' [EXE])
   \<and> exists override_both (joinpath (dirname (realpath override_both (module_file override_both))) [EXE])
   \<and> find_tcc_path override_both = Inr ''/opt/tcc/tcc.exe''"
proof -
  have env: "environ override_both KEY = Some ''/opt/tcc''"
    by (simp add: override_both_def machine_simps)
  have found: "exists override_both (joinpath ''/opt/tcc'' [EXE])"
    by (simp add: override_both_def machine_simps)
  have pkg: "exists override_both
      (joinpath (dirname (realpath override_both (module_file override_both))) [EXE])"
    by (simp add: override_both_def machine_simps)
  have "joinpath ''/opt/tcc'' [EXE] = ''/opt/tcc/tcc.exe''"
    by (simp add: machine_simps)
  with find_tcc_path_override_found [OF env found] env found pkg
  show ?thesis by simp
qed

text \<open>
  C2: with no override and no executable in the package directory, the source goes on
  to the location beside the running program, and there calls \<^verbatim>\<open>dirname\<close> with
  three arguments (line 141): the call raises \<open>TypeError\<close>, so the
  \<open>ImportError\<close> of line 145, which the claim expects, is not what the caller gets.
\<close>

theorem find_tcc_path_third_candidate_TypeError:
  assumes "environ w KEY = None"
    and "\<not> exists w (joinpath (dirname (realpath w (module_file w))) [EXE])"
  shows "find_tcc_path w
     = Inl (TypeError ''dirname() takes 1 positional argument but 3 were given'')"
  using assms by (simp add: find_tcc_path_def)

theorem find_tcc_path_third_candidate_TypeError_witness:
  "environ no_tcc KEY = None
   \<and> \<not> exists no_tcc (joinpath (dirname (realpath no_tcc (module_file no_tcc))) [EXE])
   \<and> \<not> exists no_tcc (joinpath (realpath no_tcc (dirname (sys_executable no_tcc))) [''tinycc-data'', EXE])
   \<and> find_tcc_path no_tcc
       = Inl (TypeError ''dirname() takes 1 positional argument but 3 were given'')
   \<and> find_tcc_path no_tcc \<noteq> Inl (ImportError ''Could not locate tcc.exe'')"
proof -
  have env: "environ no_tcc KEY = None"
    by (simp add: no_tcc_def machine_simps)
  have pkg: "\<not> exists no_tcc (joinpath (dirname (realpath no_tcc (module_file no_tcc))) [EXE])"
    by (simp add: no_tcc_def machine_simps)
  have adj: "\<not> exists no_tcc
      (joinpath (realpath no_tcc (dirname (sys_executable no_tcc))) [''tinycc-data'', EXE])"
    by (simp add: no_tcc_def machine_simps)
  from find_tcc_path_third_candidate_TypeError [OF env pkg] env pkg adj
  show ?thesis by simp
qed

text \<open>
  C8, as amended: the override is consulted first and, when it is set, it alone
  decides (its \<^verbatim>\<open>tcc.exe\<close> is returned if it exists, else the call fails); when
  it is not set, the package directory comes next, and its \<^verbatim>\<open>tcc.exe\<close> is
  returned if it exists.
\<close>

theorem find_tcc_path_order:
  "(environ w KEY = Some root \<longrightarrow>
      find_tcc_path w =
        (if exists w (joinpath root [EXE]) then Inr (joinpath root [EXE])
         else Inl (RuntimeError ''%s %r does not contain %s'' [KEY, root, EXE])))
   \<and> (environ w KEY = None \<longrightarrow>
        exists w (joinpath (dirname (realpath w (module_file w))) [EXE]) \<longrightarrow>
        find_tcc_path w = Inr (joinpath (dirname (realpath w (module_file w))) [EXE]))"
  by (simp add: find_tcc_path_def)

theorem find_tcc_path_order_witness:
  "find_tcc_path override_both = Inr ''/opt/tcc/tcc.exe''
   \<and> find_tcc_path bare_install = Inr ''/site-packages/tinycc/tcc.exe''"
proof -
  have "environ override_both KEY = Some ''/opt/tcc''"
    and "exists override_both (joinpath ''/opt/tcc'' [EXE])"
    and "joinpath ''/opt/tcc'' [EXE] = ''/opt/tcc/tcc.exe''"
    by (simp_all add: override_both_def machine_simps)
  with find_tcc_path_order [of override_both "''/opt/tcc''"]
  have one: "find_tcc_path override_both = Inr ''/opt/tcc/tcc.exe''"
    by simp
  have "environ bare_install KEY = None"
    and "exists bare_install
      (joinpath (dirname (realpath bare_install (module_file bare_install))) [EXE])"
    and "joinpath (dirname (realpath bare_install (module_file bare_install))) [EXE]
      = ''/site-packages/tinycc/tcc.exe''"
    by (simp_all add: bare_install_def machine_simps)
  with find_tcc_path_order [of bare_install]
  have two: "find_tcc_path bare_install = Inr ''/site-packages/tinycc/tcc.exe''"
    by simp
  from one two show ?thesis by simp
qed

text \<open>
  C8 as stated fails: at \<open>override_empty\<close> the first candidate that contains the
  executable is the package directory, and \<^verbatim>\<open>find_tcc_path\<close> returns no path.
\<close>

theorem find_tcc_path_not_first_candidate:
  "spec_find_tcc_path override_empty = Some ''/site-packages/tinycc/tcc.exe''
   \<and> find_tcc_path override_empty
       = Inl (RuntimeError ''%s %r does not contain %s'' [''TCC_ROOT'', ''/opt/tcc'', ''tcc.exe''])"
  by (simp add: spec_find_tcc_path_def spec_candidates_def find_tcc_path_def
      override_empty_def machine_simps)

subsection \<open>\<^verbatim>\<open>compile\<close>\<close>

lemma compile_Inr:
  "fst (compile os_system tcc w source tgt) = Inr p \<Longrightarrow>
     p = (case tgt of None \<Rightarrow> fst (splitext source) @ ''.dll'' | Some t \<Rightarrow> t)"
  by (auto simp: compile_def Let_def split: sum.splits prod.splits if_splits option.splits)

lemma compile_None:
  "compile os_system tcc w source None
     = compile os_system tcc w source (Some (fst (splitext source) @ ''.dll''))"
  by (simp add: compile_def)

text \<open>
  C1: the claim is that the command has the shape executable, flags, source,
  \<^verbatim>\<open>-o\<close>, target. The template of line 72 ends in \<^verbatim>\<open>$(target)s\<close> where the
  docstring of the module (line 22) has \<^verbatim>\<open>%(target)s\<close>, so nothing is substituted
  there: for every source and target (and a \<^verbatim>\<open>TCC\<close> without a percent sign) the
  command that \<^verbatim>\<open>os.system\<close> receives ends in the text \<^verbatim>\<open>-o $(target)s\<close>, and
  the target is used only in the check afterwards and as the result.
\<close>

theorem compile_command_omits_target:
  assumes "CHR ''%'' \<notin> set tcc"
  shows "compile os_system tcc w source (Some target) =
     (case os_system (tcc @ '' -shared -rdynamic -Wall '' @ source @ '' -o $(target)s'') w of
        (status, w') \<Rightarrow>
          if status \<noteq> 0 \<or> \<not> exists w' target
          then (Inl (RuntimeError ''compile failed.  File is in %r'' [source]), w')
          else (Inr target, w'))"
  using assms by (simp add: compile_def py_format_COMPILE del: py_format.simps)

text \<open>
  At \<^verbatim>\<open>compile("hello.c", "build/hello.dll")\<close>, with the \<^verbatim>\<open>TCC\<close> that the
  import computes at \<open>bare_install\<close>, in a shell where the command ends
  with status 0 and writes the file that its \<^verbatim>\<open>-o\<close> names: that file is
  \<^verbatim>\<open>$(target)s\<close>, the target does not exist, and \<^verbatim>\<open>compile\<close> raises.
\<close>

theorem compile_command_omits_target_witness:
  \<open>TCC bare_install = Inr ''"/site-packages/tinycc/tcc.exe"''
   \<and> CHR ''%'' \<notin> set ''"/site-packages/tinycc/tcc.exe"''
   \<and> writing_shell ''$(target)s''
         ''"/site-packages/tinycc/tcc.exe" -shared -rdynamic -Wall hello.c -o $(target)s''
         bare_install
       = (0, snd (compile (writing_shell ''$(target)s'') ''"/site-packages/tinycc/tcc.exe"''
            bare_install ''hello.c'' (Some ''build/hello.dll'')))
   \<and> fst (compile (writing_shell ''$(target)s'') ''"/site-packages/tinycc/tcc.exe"''
            bare_install ''hello.c'' (Some ''build/hello.dll''))
       = Inl (RuntimeError ''compile failed.  File is in %r'' [''hello.c''])\<close>
proof -
  have free: \<open>CHR ''%'' \<notin> set ''"/site-packages/tinycc/tcc.exe"''\<close>
    by simp
  have missing: "\<not> exists bare_install ''build/hello.dll''"
    by (simp add: bare_install_def machine_def)
  have global: \<open>TCC bare_install = Inr ''"/site-packages/tinycc/tcc.exe"''\<close>
    by (simp add: TCC_def find_tcc_path_def bare_install_def machine_simps)
  from compile_command_omits_target [OF free, of "writing_shell ''$(target)s''"
      bare_install "''hello.c''" "''build/hello.dll''"] free missing global
  show ?thesis by (simp add: writing_shell_def)
qed

text \<open>
  C4: once the command is built and run, \<^verbatim>\<open>compile\<close> raises exactly when the
  exit status is not zero or the target does not exist afterwards; the exception is
  the \<open>RuntimeError\<close> of line 76, and otherwise the target is returned. The target
  is the one given, or the one computed from the source when none is given.
\<close>

theorem compile_fails_iff:
  assumes "target = (case tgt of None \<Rightarrow> fst (splitext source) @ ''.dll'' | Some t \<Rightarrow> t)"
    and "py_format (COMPILE tcc) [''source'' \<mapsto> source, ''target'' \<mapsto> target] = Inr command"
    and "os_system command w = (status, w')"
  shows "(isl (fst (compile os_system tcc w source tgt))
            \<longleftrightarrow> status \<noteq> 0 \<or> \<not> exists w' target)
       \<and> fst (compile os_system tcc w source tgt) =
           (if status \<noteq> 0 \<or> \<not> exists w' target
            then Inl (RuntimeError ''compile failed.  File is in %r'' [source])
            else Inr target)"
  using assms by (simp add: compile_def del: py_format.simps)

theorem compile_fails_iff_witness:
  \<open>fst (compile failing_shell ''"/site-packages/tinycc/tcc.exe"'' workdir ''hello.c'' None)
     = Inl (RuntimeError ''compile failed.  File is in %r'' [''hello.c''])
   \<and> fst (compile (writing_shell ''$(target)s'') ''"/site-packages/tinycc/tcc.exe"''
            workdir ''hello.c'' (Some ''new.dll''))
     = Inl (RuntimeError ''compile failed.  File is in %r'' [''hello.c''])
   \<and> fst (compile (writing_shell ''$(target)s'') ''"/site-packages/tinycc/tcc.exe"''
            workdir ''hello.c'' None)
     = Inr ''hello.dll''\<close>
proof -
  let ?tcc = \<open>''"/site-packages/tinycc/tcc.exe"''\<close>
  let ?command =
    \<open>''"/site-packages/tinycc/tcc.exe" -shared -rdynamic -Wall hello.c -o $(target)s''\<close>
  let ?w' = "workdir\<lparr>exists := (\<lambda>p. p = ''$(target)s'' \<or> exists workdir p)\<rparr>"
  have ext: "fst (splitext ''hello.c'') = ''hello''"
    by code_simp
  have fmt: "py_format (COMPILE ?tcc) [''source'' \<mapsto> ''hello.c'', ''target'' \<mapsto> t] = Inr ?command"
    for t
    using py_format_COMPILE [of ?tcc "''hello.c''" t] by simp
  have fails: "failing_shell ?command workdir = (1, workdir)"
    by (simp add: failing_shell_def)
  have writes: "writing_shell ''$(target)s'' ?command workdir = (0, ?w')"
    by (simp add: writing_shell_def)
  have old: "exists ?w' ''hello.dll''" and new: "\<not> exists ?w' ''new.dll''"
    by (simp_all add: workdir_def machine_def)
  from compile_fails_iff [where tgt = None and target = "''hello.dll''" and source = "''hello.c''"
      and tcc = ?tcc and command = ?command and os_system = failing_shell and w = workdir
      and status = 1 and w' = workdir] fmt fails
  have one: "fst (compile failing_shell ?tcc workdir ''hello.c'' None)
      = Inl (RuntimeError ''compile failed.  File is in %r'' [''hello.c''])"
    by (simp add: ext)
  from compile_fails_iff [where tgt = "Some ''new.dll''" and target = "''new.dll''"
      and source = "''hello.c''" and tcc = ?tcc and command = ?command
      and os_system = "writing_shell ''$(target)s''" and w = workdir
      and status = 0 and w' = ?w'] fmt writes new
  have two: "fst (compile (writing_shell ''$(target)s'') ?tcc workdir ''hello.c'' (Some ''new.dll''))
      = Inl (RuntimeError ''compile failed.  File is in %r'' [''hello.c''])"
    by (simp add: ext)
  from compile_fails_iff [where tgt = None and target = "''hello.dll''" and source = "''hello.c''"
      and tcc = ?tcc and command = ?command
      and os_system = "writing_shell ''$(target)s''" and w = workdir
      and status = 0 and w' = ?w'] fmt writes old
  have three: "fst (compile (writing_shell ''$(target)s'') ?tcc workdir ''hello.c'' None)
      = Inr ''hello.dll''"
    by (simp add: ext)
  from one two three show ?thesis by simp
qed

text \<open>
  C7: without a target, \<^verbatim>\<open>compile\<close> computes the source with its extension
  replaced by \<^verbatim>\<open>.dll\<close>, and returns it on success. The source is a directory
  part \<open>dir\<close> (empty, or ending in the separator) and a file name. If the name is
  \<open>stem\<close>, a dot and \<open>e\<close>, with no dot in \<open>e\<close> and a character other than the dot
  in \<open>stem\<close>, the extension is the dot and \<open>e\<close>, and the target is \<open>dir\<close>,
  \<open>stem\<close> and \<^verbatim>\<open>.dll\<close>. If the name has no dot after its leading dots, there is no
  extension, and \<^verbatim>\<open>.dll\<close> is added to the source. Every name is of one of the
  two forms (\<open>name_forms\<close>).
\<close>

theorem compile_default_target:
  assumes "source = dir @ name"
    and "CHR ''/'' \<notin> set name"
    and "dir = [] \<or> last dir = CHR ''/''"
  shows "(name = stem @ CHR ''.'' # e \<and> CHR ''.'' \<notin> set e \<and> (\<exists>c \<in> set stem. c \<noteq> CHR ''.'')
            \<longrightarrow> splitext source = (dir @ stem, CHR ''.'' # e)
              \<and> compile os_system tcc w source None
                  = compile os_system tcc w source (Some (dir @ stem @ ''.dll''))
              \<and> (\<forall>p. fst (compile os_system tcc w source None) = Inr p
                       \<longrightarrow> p = dir @ stem @ ''.dll''))
       \<and> (name = dots @ body \<and> set dots \<subseteq> {CHR ''.''} \<and> CHR ''.'' \<notin> set body
            \<longrightarrow> splitext source = (source, [])
              \<and> compile os_system tcc w source None
                  = compile os_system tcc w source (Some (source @ ''.dll''))
              \<and> (\<forall>p. fst (compile os_system tcc w source None) = Inr p
                       \<longrightarrow> p = source @ ''.dll''))"
proof (intro conjI impI)
  assume a: "name = stem @ CHR ''.'' # e \<and> CHR ''.'' \<notin> set e \<and> (\<exists>c \<in> set stem. c \<noteq> CHR ''.'')"
  then have split: "splitext source = (dir @ stem, CHR ''.'' # e)"
    using splitext_extension [OF assms(2,3), of stem e] assms(1) by simp
  then show "splitext source = (dir @ stem, CHR ''.'' # e)" .
  from split show "compile os_system tcc w source None
      = compile os_system tcc w source (Some (dir @ stem @ ''.dll''))"
    by (simp add: compile_None)
  from split show "\<forall>p. fst (compile os_system tcc w source None) = Inr p
      \<longrightarrow> p = dir @ stem @ ''.dll''"
    using compile_Inr [of os_system tcc w source None] by simp
next
  assume b: "name = dots @ body \<and> set dots \<subseteq> {CHR ''.''} \<and> CHR ''.'' \<notin> set body"
  then have split: "splitext source = (source, [])"
    using splitext_no_extension [OF assms(2,3), of dots body] assms(1) by simp
  then show "splitext source = (source, [])" .
  from split show "compile os_system tcc w source None
      = compile os_system tcc w source (Some (source @ ''.dll''))"
    by (simp add: compile_None)
  from split show "\<forall>p. fst (compile os_system tcc w source None) = Inr p
      \<longrightarrow> p = source @ ''.dll''"
    using compile_Inr [of os_system tcc w source None] by simp
qed

text \<open>
  \<^verbatim>\<open>src/hello.c\<close> has the extension \<^verbatim>\<open>.c\<close>, and \<^verbatim>\<open>compile\<close> returns
  \<^verbatim>\<open>src/hello.dll\<close> when the shell leaves that file; \<^verbatim>\<open>.bashrc\<close> has only
  leading dots, hence no extension, and the target is \<^verbatim>\<open>.bashrc.dll\<close>.
\<close>

theorem compile_default_target_witness:
  \<open>splitext ''src/hello.c'' = (''src/hello'', ''.c'')
   \<and> fst (compile (writing_shell ''src/hello.dll'') ''"/site-packages/tinycc/tcc.exe"''
            workdir ''src/hello.c'' None)
     = Inr ''src/hello.dll''
   \<and> splitext ''.bashrc'' = (''.bashrc'', [])
   \<and> fst (compile (writing_shell ''.bashrc.dll'') ''"/site-packages/tinycc/tcc.exe"''
            workdir ''.bashrc'' None)
     = Inr ''.bashrc.dll''\<close>
proof -
  let ?tcc = \<open>''"/site-packages/tinycc/tcc.exe"''\<close>
  have fmt: "\<exists>command. py_format (COMPILE ?tcc) [''source'' \<mapsto> s, ''target'' \<mapsto> t] = Inr command"
    for s t
    using py_format_COMPILE [of ?tcc s t] by simp
  have written: "fst (compile (writing_shell t) ?tcc workdir s (Some t)) = Inr t" for s t
    using fmt [of s t] by (auto simp: compile_def writing_shell_def Let_def simp del: py_format.simps)
  have hello: "splitext ''src/hello.c'' = (''src/hello'', ''.c'')
      \<and> compile (writing_shell ''src/hello.dll'') ?tcc workdir ''src/hello.c'' None
          = compile (writing_shell ''src/hello.dll'') ?tcc workdir ''src/hello.c''
              (Some (''src/'' @ ''hello'' @ ''.dll''))"
    using compile_default_target [of "''src/hello.c''" "''src/''" "''hello.c''" "''hello''" "''c''"
        "writing_shell ''src/hello.dll''" ?tcc workdir]
    by simp
  have bashrc: "splitext ''.bashrc'' = (''.bashrc'', [])
      \<and> compile (writing_shell ''.bashrc.dll'') ?tcc workdir ''.bashrc'' None
          = compile (writing_shell ''.bashrc.dll'') ?tcc workdir ''.bashrc''
              (Some (''.bashrc'' @ ''.dll''))"
    using compile_default_target [of "''.bashrc''" "[]" "''.bashrc''" _ _
        "writing_shell ''.bashrc.dll''" ?tcc workdir "''.''" "''bashrc''"]
    by simp
  from hello bashrc written [of "''src/hello.dll''" "''src/hello.c''"]
    written [of "''.bashrc.dll''" "''.bashrc''"]
  show ?thesis by simp
qed

text \<open>
  C9: with a target given, \<^verbatim>\<open>compile\<close> returns, when it returns, that target
  unchanged, whatever the source would have given.
\<close>

theorem compile_explicit_target:
  assumes "fst (compile os_system tcc w source (Some target)) = Inr p"
  shows "p = target"
  using compile_Inr [OF assms] by simp

theorem compile_explicit_target_witness:
  \<open>fst (compile (writing_shell ''$(target)s'') ''"/site-packages/tinycc/tcc.exe"''
          workdir ''hello.c'' (Some ''out.so''))
     = Inr ''out.so''
   \<and> fst (splitext ''hello.c'') @ ''.dll'' = ''hello.dll''\<close>
proof -
  let ?tcc = \<open>''"/site-packages/tinycc/tcc.exe"''\<close>
  have fmt: \<open>py_format (COMPILE ?tcc) [''source'' \<mapsto> ''hello.c'', ''target'' \<mapsto> ''out.so'']
      = Inr ''"/site-packages/tinycc/tcc.exe" -shared -rdynamic -Wall hello.c -o $(target)s''\<close>
    using py_format_COMPILE [of ?tcc "''hello.c''" "''out.so''"] by simp
  have "\<exists>p. fst (compile (writing_shell ''$(target)s'') ?tcc workdir ''hello.c'' (Some ''out.so''))
      = Inr p"
    using fmt by (simp add: compile_def writing_shell_def workdir_def machine_def Let_def
        del: py_format.simps)
  then obtain p where
    p: "fst (compile (writing_shell ''$(target)s'') ?tcc workdir ''hello.c'' (Some ''out.so'')) = Inr p"
    by blast
  from compile_explicit_target [OF p] p
  have "fst (compile (writing_shell ''$(target)s'') ?tcc workdir ''hello.c'' (Some ''out.so''))
      = Inr ''out.so''"
    by simp
  moreover have "fst (splitext ''hello.c'') @ ''.dll'' = ''hello.dll''"
    by code_simp
  ultimately show ?thesis by simp
qed

subsection \<open>\<^verbatim>\<open>data_files\<close>\<close>

lemma find_files_fst:
  "fst (find_files w ROOT path patterns)
     = (if path \<noteq> [] then join2 ''tinycc-data'' path else ''tinycc-data'')"
  by (simp add: find_files_def joinpath_def)

lemma find_files_snd_empty:
  assumes "\<forall>pattern \<in> set (split_on CHR '','' patterns). glob w (joinpath ROOT [path, pattern]) = []"
  shows "snd (find_files w ROOT path patterns) = []"
  using assms by (simp add: find_files_def)

lemma join2_data_relative:
  assumes "p \<noteq> []" and "hd p \<noteq> CHR ''/''"
  shows "join2 ''tinycc-data'' p = ''tinycc-data/'' @ p"
  using assms by (simp add: join2_def)

lemma walk_entries_map:
  "walk_entries w ROOT
     = map (\<lambda>(path, patterns). find_files w ROOT path patterns)
         (concat (map (\<lambda>(path, dirs, files).
                      map (\<lambda>d. (joinpath (drop (length ROOT + 1) path) [d], ''*.h'')) dirs)
                   (walk w (joinpath ROOT [''include'']))))"
  by (simp add: walk_entries_def map_concat comp_def case_prod_unfold Let_def)

lemma data_files_map:
  assumes "find_tcc_path w = Inr tcc_path"
  shows "data_files w
     = Inr (map (\<lambda>(path, patterns). find_files w (dirname tcc_path) path patterns)
              (find_files_calls w (dirname tcc_path)))"
  using assms by (simp add: data_files_def find_files_calls_def walk_entries_map Let_def)

lemma walked_path_relative:
  assumes "prefix (joinpath ROOT [''include'']) path"
  shows "drop (length ROOT + 1) path \<noteq> [] \<and> hd (drop (length ROOT + 1) path) \<noteq> CHR ''/''"
proof -
  from assms obtain rest where rest: "path = joinpath ROOT [''include''] @ rest"
    by (auto simp: prefix_def)
  show ?thesis
  proof (cases "ROOT = [] \<or> last ROOT = CHR ''/''")
    case True
    then have "path = ROOT @ ''include'' @ rest"
      using rest by (simp add: joinpath_def join2_def)
    then have "drop (length ROOT + 1) path = ''nclude'' @ rest"
      by simp
    then show ?thesis by simp
  next
    case False
    then have "path = ROOT @ ''/include'' @ rest"
      using rest by (simp add: joinpath_def join2_def)
    then have "drop (length ROOT + 1) path = ''include'' @ rest"
      by simp
    then show ?thesis by simp
  qed
qed

lemma join2_relative:
  assumes "rel \<noteq> []" and "hd rel \<noteq> CHR ''/''" and "d \<noteq> []" and "hd d \<noteq> CHR ''/''"
  shows "join2 rel d \<noteq> [] \<and> hd (join2 rel d) \<noteq> CHR ''/''"
  using assms by (simp add: join2_def)

lemma find_files_calls_relative:
  assumes "walk_contract w"
    and "(path, patterns) \<in> set (find_files_calls w ROOT)"
  shows "path = [] \<or> hd path \<noteq> CHR ''/''"
proof -
  from assms(2) consider
      "path \<in> {''include'', ''lib'', ''libtcc'', []}"
    | top dirs files d where "(top, dirs, files) \<in> set (walk w (joinpath ROOT [''include'']))"
        "d \<in> set dirs" "path = joinpath (drop (length ROOT + 1) top) [d]"
    by (auto simp: find_files_calls_def)
  then show ?thesis
  proof cases
    case 1
    then show ?thesis by auto
  next
    case 2
    from assms(1) 2(1,2) have pre: "prefix (joinpath ROOT [''include'']) top"
      and d: "d \<noteq> []" "CHR ''/'' \<notin> set d"
      unfolding walk_contract_def by blast+
    from d have "hd d \<noteq> CHR ''/''"
      by (cases d) auto
    with walked_path_relative [OF pre] d(1) 2(3) show ?thesis
      using join2_relative [of "drop (length ROOT + 1) top" d] by (simp add: joinpath_def)
  qed
qed

text \<open>
  C3, as amended: the manifest has exactly one entry for each call of
  \<^verbatim>\<open>_find_files\<close> that \<^verbatim>\<open>data_files\<close> makes, in the order of the calls, whether
  the directory exists or not (the source appends without a test): the destination
  with the files that the patterns match. When none of the patterns matches a file,
  as for a directory that does not exist, the entry pairs the destination with the
  empty list.
\<close>

theorem data_files_keeps_empty_entries:
  assumes "find_tcc_path w = Inr tcc_path"
    and "(path, patterns) \<in> set (find_files_calls w (dirname tcc_path))"
  shows "\<exists>manifest. data_files w = Inr manifest
       \<and> manifest = map (\<lambda>(path, patterns). find_files w (dirname tcc_path) path patterns)
                       (find_files_calls w (dirname tcc_path))
       \<and> (if path \<noteq> [] then joinpath ''tinycc-data'' [path] else ''tinycc-data'',
           concat (map (\<lambda>pattern. glob w (joinpath (dirname tcc_path) [path, pattern]))
                       (split_on CHR '','' patterns)))
           \<in> set manifest
       \<and> ((\<forall>pattern \<in> set (split_on CHR '','' patterns).
              glob w (joinpath (dirname tcc_path) [path, pattern]) = [])
           \<longrightarrow> (if path \<noteq> [] then joinpath ''tinycc-data'' [path] else ''tinycc-data'', [])
                 \<in> set manifest)"
proof -
  let ?ROOT = "dirname tcc_path"
  let ?dest = "if path \<noteq> [] then joinpath ''tinycc-data'' [path] else ''tinycc-data''"
  let ?manifest = "map (\<lambda>(path, patterns). find_files w ?ROOT path patterns)
      (find_files_calls w ?ROOT)"
  have result: "data_files w = Inr ?manifest"
    using assms(1) by (rule data_files_map)
  have entry: "find_files w ?ROOT path patterns \<in> set ?manifest"
    using assms(2) by force
  have found: "find_files w ?ROOT path patterns
      = (?dest, concat (map (\<lambda>pattern. glob w (joinpath ?ROOT [path, pattern]))
                            (split_on CHR '','' patterns)))"
    by (simp add: find_files_def)
  have empty: "find_files w ?ROOT path patterns = (?dest, [])"
    if "\<forall>pattern \<in> set (split_on CHR '','' patterns). glob w (joinpath ?ROOT [path, pattern]) = []"
    using find_files_fst [of w ?ROOT path patterns] find_files_snd_empty [OF that]
    by (simp add: prod_eq_iff joinpath_def)
  from result entry found empty show ?thesis
    by (intro exI [of _ ?manifest]) (metis (no_types, lifting))
qed

text \<open>
  At \<open>bare_install\<close> there is no \<^verbatim>\<open>libtcc\<close> directory, and the manifest has the
  entry for it, with no file; the entry of the root directory itself, where the
  executable is found, is there as well.
\<close>

theorem data_files_keeps_empty_entries_witness:
  "find_tcc_path bare_install = Inr ''/site-packages/tinycc/tcc.exe''
   \<and> \<not> exists bare_install ''/site-packages/tinycc/libtcc''
   \<and> (\<exists>manifest. data_files bare_install = Inr manifest
         \<and> (''tinycc-data/libtcc'', []) \<in> set manifest
         \<and> (''tinycc-data'', [''/site-packages/tinycc/tcc.exe'']) \<in> set manifest)"
proof -
  let ?ROOT = "dirname ''/site-packages/tinycc/tcc.exe''"
  have path: "find_tcc_path bare_install = Inr ''/site-packages/tinycc/tcc.exe''"
    by (simp add: find_tcc_path_def bare_install_def machine_simps)
  have root: "?ROOT = ''/site-packages/tinycc''"
    by (simp add: machine_simps)
  have call: "(''libtcc'', ''*'') \<in> set (find_files_calls bare_install ?ROOT)"
    and call': "([], ''*.exe,*.dll'') \<in> set (find_files_calls bare_install ?ROOT)"
    by (simp_all add: find_files_calls_def)
  have no_match: "\<forall>pattern \<in> set (split_on CHR '','' ''*'').
      glob bare_install (joinpath ?ROOT [''libtcc'', pattern]) = []"
    by (simp add: root) (simp add: bare_install_def machine_simps)
  have exe: "concat (map (\<lambda>pattern. glob bare_install (joinpath ?ROOT [[], pattern]))
      (split_on CHR '','' ''*.exe,*.dll'')) = [''/site-packages/tinycc/tcc.exe'']"
    by (simp add: root) (simp add: bare_install_def machine_simps)
  have absent: "\<not> exists bare_install ''/site-packages/tinycc/libtcc''"
    by (simp add: bare_install_def machine_def)
  from data_files_keeps_empty_entries [OF path call]
  obtain manifest where manifest: "data_files bare_install = Inr manifest"
    and empty: "(\<forall>pattern \<in> set (split_on CHR '','' ''*'').
        glob bare_install (joinpath ?ROOT [''libtcc'', pattern]) = [])
      \<longrightarrow> (if ''libtcc'' \<noteq> [] then joinpath ''tinycc-data'' [''libtcc''] else ''tinycc-data'', [])
            \<in> set manifest"
    by blast
  from empty no_match have one: "(''tinycc-data/libtcc'', []) \<in> set manifest"
    by (simp add: joinpath_def join2_def)
  from data_files_keeps_empty_entries [OF path call']
  obtain manifest' where manifest': "data_files bare_install = Inr manifest'"
    and entry: "(if [] \<noteq> ([] :: string) then joinpath ''tinycc-data'' [[]] else ''tinycc-data'',
        concat (map (\<lambda>pattern. glob bare_install (joinpath ?ROOT [[], pattern]))
          (split_on CHR '','' ''*.exe,*.dll''))) \<in> set manifest'"
    by blast
  from manifest manifest' have "manifest' = manifest"
    by simp
  with entry exe have two: "(''tinycc-data'', [''/site-packages/tinycc/tcc.exe'']) \<in> set manifest"
    by simp
  from manifest one two path absent show ?thesis by blast
qed

text \<open>
  C3 as stated fails at \<open>bare_install\<close>: the directories \<^verbatim>\<open>include\<close>, \<^verbatim>\<open>lib\<close>
  and \<^verbatim>\<open>libtcc\<close> do not exist under the root, and the manifest pairs each of
  their destinations with an empty list of files.
\<close>

theorem data_files_empty_entry_counterexample:
  "find_tcc_path bare_install = Inr ''/site-packages/tinycc/tcc.exe''
   \<and> dirname ''/site-packages/tinycc/tcc.exe'' = ''/site-packages/tinycc''
   \<and> \<not> exists bare_install (joinpath ''/site-packages/tinycc'' [''lib''])
   \<and> data_files bare_install
       = Inr [(''tinycc-data/include'', []), (''tinycc-data/lib'', []),
              (''tinycc-data/libtcc'', []),
              (''tinycc-data'', [''/site-packages/tinycc/tcc.exe''])]"
proof -
  have path: "find_tcc_path bare_install = Inr ''/site-packages/tinycc/tcc.exe''"
    by (simp add: find_tcc_path_def bare_install_def machine_simps)
  have root: "dirname ''/site-packages/tinycc/tcc.exe'' = ''/site-packages/tinycc''"
    by (simp add: machine_simps)
  have absent: "\<not> exists bare_install (joinpath ''/site-packages/tinycc'' [''lib''])"
    by (simp add: bare_install_def machine_simps)
  have "data_files bare_install
      = Inr [(''tinycc-data/include'', []), (''tinycc-data/lib'', []),
             (''tinycc-data/libtcc'', []),
             (''tinycc-data'', [''/site-packages/tinycc/tcc.exe''])]"
    by (simp add: data_files_def path root walk_entries_def find_files_def)
      (simp add: bare_install_def machine_def joinpath_def join2_def)
  with path root absent show ?thesis by simp
qed

text \<open>
  C10: every destination in the manifest is \<^verbatim>\<open>tinycc-data\<close>, or \<^verbatim>\<open>tinycc-data\<close>
  joined with a relative path, which is that path below \<^verbatim>\<open>tinycc-data/\<close>. This
  holds for every root that \<^verbatim>\<open>find_tcc_path\<close> can give and every answer of
  \<^verbatim>\<open>glob\<close>; of \<^verbatim>\<open>os.walk\<close> it uses what \<open>walk_contract\<close> says, since a
  subdirectory name that began with the separator would replace the destination.
\<close>

theorem data_files_destinations:
  assumes "walk_contract w"
    and "data_files w = Inr manifest"
    and "(target, files) \<in> set manifest"
  shows "target = ''tinycc-data''
       \<or> (\<exists>p. p \<noteq> [] \<and> hd p \<noteq> CHR ''/''
              \<and> target = joinpath ''tinycc-data'' [p] \<and> target = ''tinycc-data/'' @ p)"
proof -
  from assms(2) obtain tcc_path where path: "find_tcc_path w = Inr tcc_path"
    by (auto simp: data_files_def split: sum.splits)
  let ?ROOT = "dirname tcc_path"
  from data_files_map [OF path] assms(2)
  have "manifest = map (\<lambda>(path, patterns). find_files w ?ROOT path patterns)
      (find_files_calls w ?ROOT)"
    by simp
  with assms(3) obtain p patterns where call: "(p, patterns) \<in> set (find_files_calls w ?ROOT)"
    and entry: "(target, files) = find_files w ?ROOT p patterns"
    by auto
  from entry have target: "target = (if p \<noteq> [] then join2 ''tinycc-data'' p else ''tinycc-data'')"
    using find_files_fst [of w ?ROOT p patterns] by (metis fst_conv)
  show ?thesis
  proof (cases "p = []")
    case True
    with target show ?thesis by simp
  next
    case False
    with find_files_calls_relative [OF assms(1) call] have rel: "hd p \<noteq> CHR ''/''"
      by simp
    from False rel target have "target = joinpath ''tinycc-data'' [p]"
      and "target = ''tinycc-data/'' @ p"
      by (simp_all add: joinpath_def join2_data_relative)
    with False rel show ?thesis by blast
  qed
qed

theorem data_files_destinations_witness:
  "walk_contract full_install
   \<and> data_files full_install
       = Inr [(''tinycc-data/include'', [''/site-packages/tinycc/include/stdio.h'']),
              (''tinycc-data/include/sys'', [''/site-packages/tinycc/include/sys/stat.h'']),
              (''tinycc-data/lib'', [''/site-packages/tinycc/lib/libtcc1.a'']),
              (''tinycc-data/libtcc'', []),
              (''tinycc-data'', [''/site-packages/tinycc/tcc.exe''])]
   \<and> (\<exists>p. p \<noteq> [] \<and> hd p \<noteq> CHR ''/''
          \<and> ''tinycc-data/include/sys'' = joinpath ''tinycc-data'' [p])"
proof -
  have contract: "walk_contract full_install"
    by (auto simp: walk_contract_def full_install_def machine_def split: if_splits)
  have path: "find_tcc_path full_install = Inr ''/site-packages/tinycc/tcc.exe''"
    by (simp add: find_tcc_path_def full_install_def machine_simps)
  have root: "dirname ''/site-packages/tinycc/tcc.exe'' = ''/site-packages/tinycc''"
    by (simp add: machine_simps)
  have manifest: "data_files full_install
      = Inr [(''tinycc-data/include'', [''/site-packages/tinycc/include/stdio.h'']),
             (''tinycc-data/include/sys'', [''/site-packages/tinycc/include/sys/stat.h'']),
             (''tinycc-data/lib'', [''/site-packages/tinycc/lib/libtcc1.a'']),
             (''tinycc-data/libtcc'', []),
             (''tinycc-data'', [''/site-packages/tinycc/tcc.exe''])]"
    by (simp add: data_files_def path root walk_entries_def find_files_def)
      (simp add: full_install_def machine_def joinpath_def join2_def)
  have "(''tinycc-data/include/sys'', [''/site-packages/tinycc/include/sys/stat.h''])
      \<in> set [(''tinycc-data/include'', [''/site-packages/tinycc/include/stdio.h'']),
             (''tinycc-data/include/sys'', [''/site-packages/tinycc/include/sys/stat.h'']),
             (''tinycc-data/lib'', [''/site-packages/tinycc/lib/libtcc1.a'']),
             (''tinycc-data/libtcc'', []),
             (''tinycc-data'', [''/site-packages/tinycc/tcc.exe''])]"
    by simp
  from data_files_destinations [OF contract manifest this]
  have "''tinycc-data/include/sys'' = ''tinycc-data''
      \<or> (\<exists>p. p \<noteq> [] \<and> hd p \<noteq> CHR ''/''
             \<and> ''tinycc-data/include/sys'' = joinpath ''tinycc-data'' [p]
             \<and> ''tinycc-data/include/sys'' = ''tinycc-data/'' @ p)" .
  moreover have "''tinycc-data/include/sys'' \<noteq> ''tinycc-data''"
    by simp
  ultimately have "\<exists>p. p \<noteq> [] \<and> hd p \<noteq> CHR ''/''
      \<and> ''tinycc-data/include/sys'' = joinpath ''tinycc-data'' [p]"
    by blast
  with contract manifest show ?thesis by blast
qed

end
